theory Spec2Isabelle
  imports Complex_Main
begin

section \<open>JavaScript strings and numbers\<close>

text \<open>
  A JavaScript string is a sequence of UTF-16 code units; \<open>.length\<close>, \<open>slice\<close>,
  \<open>padEnd\<close> and \<open>repeat\<close> all count code units. A code unit is modelled by its number.
  \<open>js\<close> turns an ASCII literal into such a string.
\<close>

type_synonym ustring = "nat list"

definition js :: "string \<Rightarrow> ustring" where
  "js s = map of_char s"

text \<open>Decimal digits of a natural number, and the template-literal rendering of an integer.\<close>

fun digits :: "nat \<Rightarrow> ustring" where
  "digits n = (if n < 10 then [48 + n] else digits (n div 10) @ [48 + n mod 10])"

definition intToString :: "int \<Rightarrow> ustring" where
  "intToString i = (if i < 0 then 45 # digits (nat (- i)) else digits (nat i))"

text \<open>
  \<open>text.slice(0, end)\<close>: a negative \<open>end\<close> counts from the end of the string, an
  \<open>end\<close> beyond the string stops at its length.
\<close>

definition slice0 :: "ustring \<Rightarrow> int \<Rightarrow> ustring" where
  "slice0 s e = (if e < 0 then take (nat (int (length s) + e)) s else take (nat e) s)"





section \<open>Duration formatter (providers: formatSeconds)\<close>

text \<open>
  \<open>formatSeconds\<close> on an integer second count. Past the guard the count is positive, where
  JavaScript's \<open>%\<close> and \<open>Math.floor(a / b)\<close> are \<open>mod\<close> and \<open>div\<close>.
\<close>

definition formatSeconds :: "int \<Rightarrow> ustring" where
  "formatSeconds seconds =
     (if seconds \<le> 0 then js ''now''
      else
        let days = seconds div 86400;
            hours = (seconds mod 86400) div 3600;
            minutes = (seconds mod 3600) div 60
        in if days > 0
           then intToString days @ js ''d'' @
                (if hours > 0 then js '' '' @ intToString hours @ js ''h'' else [])
           else if hours > 0
           then intToString hours @ js ''h'' @
                (if minutes > 0 then js '' '' @ intToString minutes @ js ''m'' else [])
           else if minutes > 0 then intToString minutes @ js ''m''
           else js ''<1m'')"


section \<open>Truncation with ellipsis (index: fitTextEnd)\<close>

definition fitTextEnd :: "ustring \<Rightarrow> int \<Rightarrow> ustring" where
  "fitTextEnd text maxLength =
     (if int (length text) \<le> maxLength then text
      else if maxLength \<le> 3 then slice0 text maxLength
      else slice0 text (maxLength - 3) @ js ''...'')"

text \<open>
  The rule as the specification words it: the ellipsis is kept when more than three
  characters must be cut, and the text is cut hard otherwise.
\<close>

definition fitTextEnd_spec :: "ustring \<Rightarrow> int \<Rightarrow> ustring" where
  "fitTextEnd_spec text maxLength =
     (if int (length text) \<le> maxLength then text
      else if int (length text) - maxLength > 3
           then slice0 text (maxLength - 3) @ js ''...''
      else slice0 text maxLength)"

section \<open>Styled text and the host's terminal helpers\<close>

text \<open>
  A rendered line mixes printable code units with escape sequences (colour codes, OSC 8
  hyperlinks). A line is a list of cells: a printable code unit, or one whole escape
  sequence. Plain text occupies one column per code unit.
\<close>

datatype cell = Ch nat | Esc ustring

type_synonym styled = "cell list"


text \<open>
  Modelled from the spec: \<open>visibleWidth\<close> and \<open>truncateToWidth\<close> of the terminal library
  the panel imports are not part of the sources. Both are escape-sequence aware: the
  width of a line counts its printable cells only, and
  \<open>truncateToWidth(content, width, "", true)\<close> cuts after \<open>width\<close> printable cells and
  pads with spaces up to \<open>width\<close>.
\<close>

fun visibleWidth :: "styled \<Rightarrow> nat" where
  "visibleWidth [] = 0"
| "visibleWidth (Ch c # cs) = Suc (visibleWidth cs)"
| "visibleWidth (Esc e # cs) = visibleWidth cs"



text \<open>
  Modelled from the spec: the host's \<open>Theme\<close> is not part of the sources. \<open>fg(role, text)\<close>
  and \<open>bold(text)\<close> wrap the text in escape sequences, so the styled text is as wide as
  the text. The theme chooses the codes.
\<close>

datatype color = Border | Muted | Error | Accent | Dim | Text | Success | Warning

record Theme =
  fgCode :: "color \<Rightarrow> ustring"
  boldCode :: ustring


definition bold :: "Theme \<Rightarrow> styled \<Rightarrow> styled" where
  "bold theme t = Esc (boldCode theme) # t @ [Esc (27 # js ''[22m'')]"


section \<open>Data model (providers)\<close>

record UsageWindow =
  label :: ustring
  percentUsed :: rat
  resetIn :: "ustring option"

text \<open>The link's \<open>label\<close> field is \<open>link_label\<close> here: a window has a \<open>label\<close> already.\<close>

record ProviderLink =
  link_label :: ustring
  url :: ustring

record ProviderUsage =
  provider :: ustring
  plan :: "ustring option"
  account :: "ustring option"
  windows :: "UsageWindow list"
  links :: "ProviderLink list"
  error :: "ustring option"

text \<open>Truthiness of an optional string: \<open>undefined\<close> and the empty string are falsy.\<close>

fun truthy :: "ustring option \<Rightarrow> bool" where
  "truthy None = False"
| "truthy (Some s) = (s \<noteq> [])"

section \<open>JavaScript values read from disk and from token payloads\<close>

text \<open>
  What \<open>JSON.parse\<close> returns, with \<open>undefined\<close> for what property access adds. An object
  is its key-value list, each key once.
\<close>

datatype jsval =
  JUndefined | JNull | JBool bool | JNum rat | JStr ustring | JArr "jsval list"
  | JObj "(ustring \<times> jsval) list"

fun nullish :: "jsval \<Rightarrow> bool" where
  "nullish JUndefined = True"
| "nullish JNull = True"
| "nullish _ = False"

fun jsTruthy :: "jsval \<Rightarrow> bool" where
  "jsTruthy JUndefined = False"
| "jsTruthy JNull = False"
| "jsTruthy (JBool b) = b"
| "jsTruthy (JNum n) = (n \<noteq> 0)"
| "jsTruthy (JStr s) = (s \<noteq> [])"
| "jsTruthy _ = True"

text \<open>
  \<open>v[k]\<close> for the keys the program reads (none of them is \<open>length\<close> or an index): a
  TypeError on \<open>null\<close> and \<open>undefined\<close>, written \<open>None\<close>, since every such access sits
  under a catch-all handler; \<open>undefined\<close> on a value that is not an object.
\<close>

fun getProp :: "jsval \<Rightarrow> ustring \<Rightarrow> jsval option" where
  "getProp JUndefined k = None"
| "getProp JNull k = None"
| "getProp (JObj kvs) k = Some (case map_of kvs k of None \<Rightarrow> JUndefined | Some v \<Rightarrow> v)"
| "getProp _ k = Some JUndefined"

text \<open>\<open>v?.k\<close>: \<open>undefined\<close> on \<open>null\<close> and \<open>undefined\<close>, hence never a TypeError.\<close>

definition optProp :: "jsval \<Rightarrow> ustring \<Rightarrow> jsval" where
  "optProp v k = (if nullish v then JUndefined else the (getProp v k))"

text \<open>\<open>typeof v === "object"\<close> and \<open>k in v\<close> (for a key that is not an index).\<close>

fun typeofObject :: "jsval \<Rightarrow> bool" where
  "typeofObject JNull = True"
| "typeofObject (JArr xs) = True"
| "typeofObject (JObj kvs) = True"
| "typeofObject _ = False"

fun hasKey :: "ustring \<Rightarrow> jsval \<Rightarrow> bool" where
  "hasKey k (JObj kvs) = (map_of kvs k \<noteq> None)"
| "hasKey k _ = False"

text \<open>
  The declared types of the credential fields are trusted where a field is handed on as
  a string: a value that is not a string counts as absent.
\<close>

fun asString :: "jsval \<Rightarrow> ustring option" where
  "asString (JStr s) = Some s"
| "asString _ = None"

section \<open>Credential resolver (providers)\<close>

text \<open>
  What the operating system and the runtime supply: the contents of the two credential
  files (\<open>None\<close> when \<open>readFileSync\<close> raises), \<open>JSON.parse\<close> (\<open>None\<close> when it raises),
  \<open>Buffer.from(s, "base64").toString("utf-8")\<close>, which never raises, the date parser
  (\<open>None\<close> for an invalid date) and the clock, in milliseconds.
\<close>

record env =
  piAuthFile :: "ustring option"
  codexAuthFile :: "ustring option"
  jsonParse :: "ustring \<Rightarrow> jsval option"
  base64Decode :: "ustring \<Rightarrow> ustring"
  dateParse :: "ustring \<Rightarrow> int option"
  now :: int

text \<open>\<open>text.split(".")\<close> for a separator of one code unit.\<close>

fun splitOn :: "nat \<Rightarrow> ustring \<Rightarrow> ustring list" where
  "splitOn d [] = [[]]"
| "splitOn d (c # cs) =
     (if c = d then [] # splitOn d cs
      else case splitOn d cs of p # ps \<Rightarrow> (c # p) # ps | [] \<Rightarrow> [[c]])"

text \<open>
  \<open>readPiAuth\<close>: the value under the provider's key, \<open>null\<close> when anything raises. The
  result is whatever the file holds there; the declared type is not checked at run time.
\<close>

definition readPiAuth :: "env \<Rightarrow> ustring \<Rightarrow> jsval" where
  "readPiAuth e providerKey =
     (case Option.bind (piAuthFile e) (\<lambda>contents.
           Option.bind (jsonParse e contents) (\<lambda>data.
           Option.bind (getProp data providerKey) (\<lambda>v.
             Some (if nullish v then JNull else v))))
      of None \<Rightarrow> JNull | Some v \<Rightarrow> v)"

text \<open>
  \<open>extractEmailFromJwt\<close>. A token that is not a string has no \<open>split\<close> method, a TypeError
  the handler turns into \<open>undefined\<close>. The inner \<open>None\<close> is a raise, the outer result
  \<open>None\<close> is \<open>undefined\<close>.
\<close>

definition jwtPayloadText :: "env \<Rightarrow> ustring \<Rightarrow> ustring" where
  "jwtPayloadText e payload =
     (let normalized = map (\<lambda>c. if c = 95 then 47 else c)
                         (map (\<lambda>c. if c = 45 then 43 else c) payload);
          normalized = normalized @ replicate ((4 - (length normalized mod 4)) mod 4) 61
      in base64Decode e normalized)"

definition emailOfPayload :: "jsval \<Rightarrow> ustring option option" where
  "emailOfPayload data =
     Option.bind (getProp data (js ''https://api.openai.com/profile'')) (\<lambda>p1.
     Option.bind (if nullish p1 then getProp data (js ''https://api.anthropic.com/profile'')
                  else Some p1) (\<lambda>profile.
       if jsTruthy profile \<and> typeofObject profile \<and> hasKey (js ''email'') profile
          \<and> asString (optProp profile (js ''email'')) \<noteq> None
       then Some (asString (optProp profile (js ''email'')))
       else if asString (optProp data (js ''email'')) \<noteq> None
       then Some (asString (optProp data (js ''email'')))
       else
         let auth = optProp data (js ''https://api.openai.com/auth'')
         in if typeofObject auth \<and> jsTruthy (optProp auth (js ''email''))
               \<and> asString (optProp auth (js ''email'')) \<noteq> None
            then Some (asString (optProp auth (js ''email'')))
            else Some None))"

definition extractEmailFromJwt :: "env \<Rightarrow> jsval \<Rightarrow> ustring option" where
  "extractEmailFromJwt e token =
     (case (case token of
              JStr t \<Rightarrow>
                let parts = splitOn 46 t
                in if length parts < 2 then Some None
                   else Option.bind (jsonParse e (jwtPayloadText e (parts ! 1))) emailOfPayload
            | _ \<Rightarrow> None)
      of None \<Rightarrow> None | Some r \<Rightarrow> r)"

record ReadCodexAuth =
  accessToken :: jsval
  email :: "ustring option"

definition readCodexAuth :: "env \<Rightarrow> ReadCodexAuth option" where
  "readCodexAuth e =
     (case Option.bind (codexAuthFile e) (\<lambda>contents.
           Option.bind (jsonParse e contents) (\<lambda>data.
           Option.bind (getProp data (js ''tokens'')) (\<lambda>tokens.
             let access_token = optProp tokens (js ''access_token'')
             in if jsTruthy access_token
                then Some (Some \<lparr> accessToken = access_token,
                                   email = extractEmailFromJwt e access_token \<rparr>)
                else Some None)))
      of None \<Rightarrow> None | Some r \<Rightarrow> r)"

section \<open>Provider usage clients (providers)\<close>

text \<open>
  An exception as the handlers see it: its \<open>name\<close> and its \<open>message\<close>. A request ends
  rejected (by a transport failure, or by the cancellation signal with the name
  AbortError), or with a response: its \<open>ok\<close> flag and status, what \<open>text()\<close> gives
  (\<open>None\<close> when it rejects) and what \<open>json()\<close> gives.
\<close>

datatype exn = Exn (exn_name: ustring) (exn_message: "ustring option")

record 'd response =
  res_ok :: bool
  res_status :: int
  res_text :: "ustring option"
  res_json :: "exn + 'd"

datatype 'd fetch_outcome = FetchRejected exn | FetchResolved "'d response"

definition formatResetTimestamp :: "env \<Rightarrow> ustring \<Rightarrow> ustring" where
  \<comment> \<open>An invalid date makes every number NaN; all comparisons of \<open>formatSeconds\<close> then
      fail and it returns its last literal.\<close>
  "formatResetTimestamp e isoString =
     (case dateParse e isoString of
        None \<Rightarrow> js ''<1m''
      | Some resetMs \<Rightarrow>
          let diffSec = max 0 ((resetMs - now e) div 1000)
          in formatSeconds diffSec)"

definition ANTHROPIC_LINKS :: "ProviderLink list" where
  "ANTHROPIC_LINKS =
     [\<lparr> link_label = js ''dashboard'', url = js ''https://console.anthropic.com/settings/usage'' \<rparr>,
      \<lparr> link_label = js ''status'', url = js ''https://status.anthropic.com'' \<rparr>]"

definition CODEX_LINKS :: "ProviderLink list" where
  "CODEX_LINKS =
     [\<lparr> link_label = js ''dashboard'', url = js ''https://chatgpt.com/codex/settings/usage'' \<rparr>,
      \<lparr> link_label = js ''status'', url = js ''https://status.openai.com'' \<rparr>]"

definition fetchAnthropicProfileEmail :: "jsval fetch_outcome \<Rightarrow> ustring option" where
  "fetchAnthropicProfileEmail outcome =
     (case outcome of
        FetchRejected x \<Rightarrow> None
      | FetchResolved res \<Rightarrow>
          if \<not> res_ok res then None
          else case res_json res of
                 Inl x \<Rightarrow> None
               | Inr data \<Rightarrow>
                   (case getProp data (js ''account'') of
                      None \<Rightarrow> None
                    | Some acc \<Rightarrow>
                        (case asString (optProp acc (js ''email'')) of
                           Some em \<Rightarrow> if em \<noteq> [] then Some em else None
                         | None \<Rightarrow> None)))"

text \<open>
  The usage bodies, in the shape the mapping code reads. A field that is absent or
  \<open>null\<close> is \<open>None\<close>.
\<close>

record usage_bucket =
  utilization :: "rat option"
  resets_at :: "ustring option"

record anthropic_usage =
  five_hour :: "usage_bucket option"
  seven_day :: "usage_bucket option"
  seven_day_opus :: "usage_bucket option"
  seven_day_sonnet :: "usage_bucket option"

text \<open>One \<open>if (...) windows.push(...)\<close> block of the Anthropic mapping.\<close>

definition anthropicWindow :: "env \<Rightarrow> ustring \<Rightarrow> usage_bucket option \<Rightarrow> UsageWindow list" where
  "anthropicWindow e lbl bucket =
     (case bucket of
        None \<Rightarrow> []
      | Some b \<Rightarrow>
          (case utilization b of
             None \<Rightarrow> []
           | Some u \<Rightarrow>
               [\<lparr> label = lbl, percentUsed = u,
                  resetIn = (if truthy (resets_at b)
                             then Some (formatResetTimestamp e (the (resets_at b)))
                             else None) \<rparr>]))"

text \<open>The four blocks in the order they run.\<close>

definition anthropicWindows :: "env \<Rightarrow> anthropic_usage \<Rightarrow> UsageWindow list" where
  "anthropicWindows e data =
     anthropicWindow e (js ''5h session'') (five_hour data) @
     anthropicWindow e (js ''Weekly'') (seven_day data) @
     anthropicWindow e (js ''Weekly (Opus)'') (seven_day_opus data) @
     anthropicWindow e (js ''Weekly (Sonnet)'') (seven_day_sonnet data)"

definition fetchAnthropicUsage ::
  "env \<Rightarrow> jsval fetch_outcome \<Rightarrow> anthropic_usage fetch_outcome \<Rightarrow> ProviderUsage" where
  "fetchAnthropicUsage e profileCall usageCall =
     (let auth = readPiAuth e (js ''anthropic'')
      in if \<not> jsTruthy auth
         then \<lparr> provider = js ''Anthropic'', plan = None, account = None, windows = [],
                links = ANTHROPIC_LINKS, error = Some (js ''No OAuth credentials found'') \<rparr>
         else
           let acct =
                 (case extractEmailFromJwt e (optProp auth (js ''access'')) of
                    Some em \<Rightarrow> Some em
                  | None \<Rightarrow>
                      (case fetchAnthropicProfileEmail profileCall of
                         Some em \<Rightarrow> Some em
                       | None \<Rightarrow> asString (optProp auth (js ''accountId''))));
               catch = (\<lambda>x.
                 if exn_name x = js ''AbortError''
                 then \<lparr> provider = js ''Anthropic'', plan = None, account = acct, windows = [],
                        links = ANTHROPIC_LINKS, error = Some (js ''Cancelled'') \<rparr>
                 else \<lparr> provider = js ''Anthropic'', plan = None, account = acct, windows = [],
                        links = ANTHROPIC_LINKS, error = exn_message x \<rparr>)
           in case usageCall of
                FetchRejected x \<Rightarrow> catch x
              | FetchResolved res \<Rightarrow>
                  if \<not> res_ok res
                  then let body = (case res_text res of None \<Rightarrow> [] | Some t \<Rightarrow> t)
                       in \<lparr> provider = js ''Anthropic'', plan = None, account = acct,
                            windows = [], links = ANTHROPIC_LINKS,
                            error = Some (js ''HTTP '' @ intToString (res_status res) @ js '': '' @
                                          take 100 body) \<rparr>
                  else case res_json res of
                         Inl x \<Rightarrow> catch x
                       | Inr data \<Rightarrow>
                           \<lparr> provider = js ''Anthropic'', plan = None, account = acct,
                             windows = anthropicWindows e data, links = ANTHROPIC_LINKS,
                             error = None \<rparr>)"

record codex_window =
  used_percent :: rat
  reset_after_seconds :: "int option"

record codex_rate_limit =
  primary_window :: "codex_window option"
  secondary_window :: "codex_window option"

record codex_extra =
  limit_name :: "ustring option"
  extra_rate_limit :: "codex_rate_limit option"

record codex_usage =
  plan_type :: "ustring option"
  rate_limit :: "codex_rate_limit option"
  additional_rate_limits :: "codex_extra list option"
  code_review_rate_limit :: "codex_rate_limit option"

text \<open>
  \<open>s.replace(/^GPT-/, "")\<close> and \<open>s.replace(/-Codex-/, " ")\<close>: without the global flag
  \<open>replace\<close> rewrites the first match only.
\<close>

definition startsWith :: "ustring \<Rightarrow> ustring \<Rightarrow> bool" where
  "startsWith p s = (take (length p) s = p)"

definition stripPrefix :: "ustring \<Rightarrow> ustring \<Rightarrow> ustring" where
  "stripPrefix p s = (if startsWith p s then drop (length p) s else s)"

fun replaceFirst :: "ustring \<Rightarrow> ustring \<Rightarrow> ustring \<Rightarrow> ustring" where
  "replaceFirst p r [] = (if p = [] then r else [])"
| "replaceFirst p r (c # cs) =
     (if startsWith p (c # cs) then r @ drop (length p) (c # cs)
      else c # replaceFirst p r cs)"

text \<open>\<open>w?.used_percent ?? 0\<close> and the \<open>resetIn\<close> of a window that may be absent.\<close>

definition usedOrZero :: "codex_window option \<Rightarrow> rat" where
  "usedOrZero w = (case w of None \<Rightarrow> 0 | Some x \<Rightarrow> used_percent x)"

definition resetOf :: "codex_window option \<Rightarrow> ustring option" where
  "resetOf w =
     (case w of
        None \<Rightarrow> None
      | Some x \<Rightarrow> (case reset_after_seconds x of
                     None \<Rightarrow> None
                   | Some secs \<Rightarrow> Some (formatSeconds secs)))"

text \<open>The body of the loop over \<open>additional_rate_limits\<close>, and the loop.\<close>

definition extraWindow :: "codex_extra \<Rightarrow> UsageWindow list" where
  "extraWindow extra =
     (if \<not> truthy (limit_name extra) \<or> extra_rate_limit extra = None then []
      else
        let pw = primary_window (the (extra_rate_limit extra));
            sw = secondary_window (the (extra_rate_limit extra));
            anyUsage = (usedOrZero pw > 0 \<or> usedOrZero sw > 0)
        in if \<not> anyUsage then []
           else
             let shortName = replaceFirst (js ''-Codex-'') (js '' '')
                               (stripPrefix (js ''GPT-'') (the (limit_name extra)))
             in [\<lparr> label = shortName,
                    percentUsed = max (usedOrZero pw) (usedOrZero sw),
                    resetIn = resetOf sw \<rparr>])"

fun extraWindows :: "codex_extra list \<Rightarrow> UsageWindow list" where
  "extraWindows [] = []"
| "extraWindows (extra # rest) = extraWindow extra @ extraWindows rest"

definition codexWindows :: "codex_usage \<Rightarrow> UsageWindow list" where
  "codexWindows data =
     (case Option.bind (rate_limit data) primary_window of
        None \<Rightarrow> []
      | Some pw \<Rightarrow> [\<lparr> label = js ''5h session'', percentUsed = used_percent pw,
                      resetIn = resetOf (Some pw) \<rparr>]) @
     (case Option.bind (rate_limit data) secondary_window of
        None \<Rightarrow> []
      | Some sw \<Rightarrow> [\<lparr> label = js ''Weekly'', percentUsed = used_percent sw,
                      resetIn = resetOf (Some sw) \<rparr>]) @
     (case additional_rate_limits data of
        None \<Rightarrow> []
      | Some extras \<Rightarrow> extraWindows extras) @
     (case Option.bind (code_review_rate_limit data) primary_window of
        None \<Rightarrow> []
      | Some cr \<Rightarrow>
          if used_percent cr > 0
          then [\<lparr> label = js ''Code Review'', percentUsed = used_percent cr,
                  resetIn = resetOf (Some cr) \<rparr>]
          else [])"

text \<open>\<open>piAuth?.access ?? codexAuth?.accessToken\<close>.\<close>

definition codexAccessToken :: "env \<Rightarrow> jsval" where
  "codexAccessToken e =
     (let piAuth = readPiAuth e (js ''openai-codex'');
          codexAuth = readCodexAuth e
      in if nullish (optProp piAuth (js ''access''))
         then (case codexAuth of None \<Rightarrow> JUndefined | Some c \<Rightarrow> accessToken c)
         else optProp piAuth (js ''access''))"

definition fetchCodexUsage :: "env \<Rightarrow> codex_usage fetch_outcome \<Rightarrow> ProviderUsage" where
  "fetchCodexUsage e usageCall =
     (let piAuth = readPiAuth e (js ''openai-codex'');
          codexAuth = readCodexAuth e;
          token = codexAccessToken e
      in if \<not> jsTruthy token
         then \<lparr> provider = js ''OpenAI Codex'', plan = None, account = None, windows = [],
                links = CODEX_LINKS, error = Some (js ''No OAuth credentials found'') \<rparr>
         else
           let acct =
                 (case extractEmailFromJwt e token of
                    Some em \<Rightarrow> Some em
                  | None \<Rightarrow>
                      (case Option.bind codexAuth email of
                         Some em \<Rightarrow> Some em
                       | None \<Rightarrow> asString (optProp piAuth (js ''accountId''))));
               catch = (\<lambda>x.
                 if exn_name x = js ''AbortError''
                 then \<lparr> provider = js ''OpenAI Codex'', plan = None, account = acct,
                        windows = [], links = CODEX_LINKS, error = Some (js ''Cancelled'') \<rparr>
                 else \<lparr> provider = js ''OpenAI Codex'', plan = None, account = acct,
                        windows = [], links = CODEX_LINKS, error = exn_message x \<rparr>)
           in case usageCall of
                FetchRejected x \<Rightarrow> catch x
              | FetchResolved res \<Rightarrow>
                  if \<not> res_ok res
                  then let body = (case res_text res of None \<Rightarrow> [] | Some t \<Rightarrow> t)
                       in \<lparr> provider = js ''OpenAI Codex'', plan = None, account = acct,
                            windows = [], links = CODEX_LINKS,
                            error = Some (js ''HTTP '' @ intToString (res_status res) @ js '': '' @
                                          take 100 body) \<rparr>
                  else case res_json res of
                         Inl x \<Rightarrow> catch x
                       | Inr data \<Rightarrow>
                           \<lparr> provider = js ''OpenAI Codex'', plan = plan_type data,
                             account = acct, windows = codexWindows data,
                             links = CODEX_LINKS, error = None \<rparr>)"

section \<open>Panel layout renderer (index)\<close>

























section \<open>Specification-side definitions and examples for the providers\<close>


text \<open>
  The Anthropic mapping as the specification words it: of the four fields, in the fixed
  order, those that are present with a utilization, each under its label.
\<close>

definition anthropicWindows_spec :: "env \<Rightarrow> anthropic_usage \<Rightarrow> UsageWindow list" where
  "anthropicWindows_spec e data =
     map (\<lambda>(lbl, b). \<lparr> label = lbl, percentUsed = the (utilization b),
                       resetIn = (case resets_at b of
                                    None \<Rightarrow> None
                                  | Some ts \<Rightarrow> if ts = [] then None
                                               else Some (formatResetTimestamp e ts)) \<rparr>)
       (filter (\<lambda>(lbl, b). utilization b \<noteq> None)
          (concat (map (\<lambda>(lbl, ob). case ob of None \<Rightarrow> [] | Some b \<Rightarrow> [(lbl, b)])
             [(js ''5h session'', five_hour data), (js ''Weekly'', seven_day data),
              (js ''Weekly (Opus)'', seven_day_opus data),
              (js ''Weekly (Sonnet)'', seven_day_sonnet data)])))"

text \<open>
  The label rule as the specification words it: the leading prefix stripped and any
  "-Codex-" infix replaced by a space.
\<close>

function replaceAll :: "ustring \<Rightarrow> ustring \<Rightarrow> ustring \<Rightarrow> ustring" where
  "replaceAll p r [] = []"
| "replaceAll p r (c # cs) =
     (if p \<noteq> [] \<and> startsWith p (c # cs)
      then r @ replaceAll p r (drop (length p) (c # cs))
      else c # replaceAll p r cs)"
  by pat_completeness auto
termination
  by (relation "measure (\<lambda>(p, r, s). length s)") auto
definition extraLabel_spec :: "ustring \<Rightarrow> ustring" where
  "extraLabel_spec name = replaceAll (js ''-Codex-'') (js '' '') (stripPrefix (js ''GPT-'') name)"

definition exExtra :: "ustring \<Rightarrow> rat \<Rightarrow> rat \<Rightarrow> codex_extra" where
  "exExtra name p s =
     \<lparr> limit_name = Some name,
       extra_rate_limit = Some
         \<lparr> primary_window = Some \<lparr> used_percent = p, reset_after_seconds = None \<rparr>,
           secondary_window = Some \<lparr> used_percent = s, reset_after_seconds = Some 5400 \<rparr> \<rparr> \<rparr>"

text \<open>
  Examples: a runtime whose parser accepts the text \<open>{}\<close> only, over a given content of
  both credential files; a runtime with credentials for both providers; call outcomes;
  the response of the specification's Anthropic example; an additional rate limit.
\<close>

definition exParse :: "ustring \<Rightarrow> jsval option" where
  "exParse t = (if t = js ''{}'' then Some (JObj []) else None)"

definition exEnv :: "ustring option \<Rightarrow> env" where
  "exEnv file = \<lparr> piAuthFile = file, codexAuthFile = file, jsonParse = exParse,
                  base64Decode = (\<lambda>s. s), dateParse = (\<lambda>s. None), now = 0 \<rparr>"

definition exCreds :: jsval where
  "exCreds = JObj [(js ''anthropic'', JObj [(js ''access'', JStr (js ''tok''))]),
                   (js ''openai-codex'', JObj [(js ''access'', JStr (js ''tok''))])]"

definition exEnvAuth :: env where
  "exEnvAuth = \<lparr> piAuthFile = Some (js ''creds''), codexAuthFile = None,
                 jsonParse = (\<lambda>t. if t = js ''creds'' then Some exCreds else None),
                 base64Decode = (\<lambda>s. s), dateParse = (\<lambda>s. None), now = 0 \<rparr>"

definition exAborted :: "'d fetch_outcome" where
  "exAborted = FetchRejected (Exn (js ''AbortError'') (Some (js ''This operation was aborted'')))"

definition exNoProfile :: "jsval fetch_outcome" where
  "exNoProfile = FetchRejected (Exn (js ''TypeError'') (Some (js ''fetch failed'')))"

definition exEmptyAnthropic :: "anthropic_usage fetch_outcome" where
  "exEmptyAnthropic = FetchResolved \<lparr> res_ok = True, res_status = 200, res_text = None,
     res_json = Inr \<lparr> five_hour = None, seven_day = None, seven_day_opus = None,
                      seven_day_sonnet = None \<rparr> \<rparr>"

definition exEmptyCodex :: "codex_usage fetch_outcome" where
  "exEmptyCodex = FetchResolved \<lparr> res_ok = True, res_status = 200, res_text = None,
     res_json = Inr \<lparr> plan_type = None, rate_limit = None, additional_rate_limits = None,
                      code_review_rate_limit = None \<rparr> \<rparr>"

definition exAnthropicBody :: "ustring \<Rightarrow> anthropic_usage" where
  "exAnthropicBody stamp =
     \<lparr> five_hour = Some \<lparr> utilization = Some 34, resets_at = Some stamp \<rparr>,
       seven_day = Some \<lparr> utilization = Some 81, resets_at = None \<rparr>,
       seven_day_opus = None, seven_day_sonnet = None \<rparr>"

section \<open>Theorems\<close>



text \<open>
  C9 (as stated). The ellipsis does not depend on how many characters must be cut: cutting
  one character from an 11-character text at width 10 still ends in "...", and cutting
  nine characters at width 2 leaves no ellipsis, against the specified rule both times.
\<close>

theorem fitTextEnd_spec_counterexample:
  "fitTextEnd (js ''[star/fork]'') 10 = js ''[star/f...''
   \<and> fitTextEnd_spec (js ''[star/fork]'') 10 = js ''[star/fork''
   \<and> fitTextEnd (js ''[star/fork]'') 2 = js ''[s''
   \<and> fitTextEnd_spec (js ''[star/fork]'') 2 \<noteq> js ''[s''"
  by (simp add: fitTextEnd_def fitTextEnd_spec_def slice0_def js_def)

text \<open>
  C9 (amended). \<open>fitTextEnd\<close> returns the text unchanged when it fits. When it does not
  fit and the maximum width is more than 3, the result is the first \<open>maxLength - 3\<close>
  characters followed by "...", exactly \<open>maxLength\<close> long; when the maximum width is
  between 0 and 3 the text is cut hard to \<open>maxLength\<close> characters, without ellipsis.
\<close>

theorem fitTextEnd_amended:
  "(int (length text) \<le> m \<longrightarrow> fitTextEnd text m = text)
   \<and> (m < int (length text) \<and> 3 < m \<longrightarrow>
        fitTextEnd text m = take (nat (m - 3)) text @ js ''...''
        \<and> int (length (fitTextEnd text m)) = m)
   \<and> (m < int (length text) \<and> 0 \<le> m \<and> m \<le> 3 \<longrightarrow>
        fitTextEnd text m = take (nat m) text
        \<and> int (length (fitTextEnd text m)) = m)"
  by (auto simp: fitTextEnd_def slice0_def js_def)

theorem fitTextEnd_amended_witness:
  "fitTextEnd (js ''a@b.io'') 40 = js ''a@b.io''
   \<and> fitTextEnd (js ''[star/fork]'') 10 = take 7 (js ''[star/fork]'') @ js ''...''
   \<and> int (length (fitTextEnd (js ''[star/fork]'') 10)) = 10
   \<and> fitTextEnd (js ''[star/fork]'') 2 = take 2 (js ''[star/fork]'')
   \<and> int (length (fitTextEnd (js ''[star/fork]'') 2)) = 2"
  using fitTextEnd_amended [of "js ''a@b.io''" 40]
        fitTextEnd_amended [of "js ''[star/fork]''" 10]
        fitTextEnd_amended [of "js ''[star/fork]''" 2]
  by (simp add: js_def)

subsection \<open>Widths of styled text\<close>

lemma vw_append: "visibleWidth (a @ b) = visibleWidth a + visibleWidth b"
  by (induction a rule: visibleWidth.induct) auto



lemma vw_bold: "visibleWidth (bold th t) = visibleWidth t"
  by (simp add: bold_def vw_append)


















subsection \<open>The window row\<close>












subsection \<open>The panel\<close>












subsection \<open>The providers\<close>

lemma fetchAnthropicUsage_error_windows:
  "error (fetchAnthropicUsage e p u) \<noteq> None \<Longrightarrow> windows (fetchAnthropicUsage e p u) = []"
  by (auto simp: fetchAnthropicUsage_def Let_def split: fetch_outcome.splits sum.splits if_splits)

lemma fetchCodexUsage_error_windows:
  "error (fetchCodexUsage e u) \<noteq> None \<Longrightarrow> windows (fetchCodexUsage e u) = []"
  by (auto simp: fetchCodexUsage_def Let_def split: fetch_outcome.splits sum.splits if_splits)



lemma readPiAuth_absent:
  "(piAuthFile e = None \<longrightarrow> readPiAuth e k = JNull)
   \<and> (\<forall>c. piAuthFile e = Some c \<and> jsonParse e c = None \<longrightarrow> readPiAuth e k = JNull)
   \<and> (\<forall>c kvs. piAuthFile e = Some c \<and> jsonParse e c = Some (JObj kvs) \<and> map_of kvs k = None
        \<longrightarrow> readPiAuth e k = JNull)
   \<and> (\<forall>c v. piAuthFile e = Some c \<and> jsonParse e c = Some v \<and> (\<forall>kvs. v \<noteq> JObj kvs)
        \<longrightarrow> readPiAuth e k = JNull)"
  apply (auto simp: readPiAuth_def)
  subgoal for c v by (cases v) auto
  done

lemma readCodexAuth_absent:
  "(codexAuthFile e = None \<longrightarrow> readCodexAuth e = None)
   \<and> (\<forall>c. codexAuthFile e = Some c \<and> jsonParse e c = None \<longrightarrow> readCodexAuth e = None)
   \<and> (\<forall>c kvs. codexAuthFile e = Some c \<and> jsonParse e c = Some (JObj kvs)
          \<and> map_of kvs (js ''tokens'') = None \<longrightarrow> readCodexAuth e = None)
   \<and> (\<forall>c kvs tks. codexAuthFile e = Some c \<and> jsonParse e c = Some (JObj kvs)
          \<and> map_of kvs (js ''tokens'') = Some (JObj tks)
          \<and> map_of tks (js ''access_token'') = None \<longrightarrow> readCodexAuth e = None)
   \<and> (\<forall>c v. codexAuthFile e = Some c \<and> jsonParse e c = Some v \<and> (\<forall>kvs. v \<noteq> JObj kvs)
        \<longrightarrow> readCodexAuth e = None)"
  apply (auto simp: readCodexAuth_def optProp_def Let_def)
  subgoal for c v by (cases v) (auto simp: optProp_def)
  done

lemma extractEmailFromJwt_absent:
  "(\<forall>t. length (splitOn 46 t) < 2 \<longrightarrow> extractEmailFromJwt e (JStr t) = None)
   \<and> (\<forall>t. jsonParse e (jwtPayloadText e (splitOn 46 t ! 1)) = None
        \<longrightarrow> extractEmailFromJwt e (JStr t) = None)
   \<and> (\<forall>v. (\<forall>t. v \<noteq> JStr t) \<longrightarrow> extractEmailFromJwt e v = None)"
  apply (auto simp: extractEmailFromJwt_def Let_def)
  subgoal for v by (cases v) auto
  done

lemma js_nonempty: "js (c # cs) \<noteq> []"
  by (simp add: js_def)

lemma formatSeconds_nonempty: "formatSeconds s \<noteq> []"
  by (simp add: formatSeconds_def Let_def js_def)

lemma formatResetTimestamp_nonempty: "formatResetTimestamp e stamp \<noteq> []"
  by (simp add: formatResetTimestamp_def Let_def formatSeconds_nonempty js_def split: option.splits)

lemma anthropicWindow_spec1:
  "anthropicWindow e lbl ob =
     map (\<lambda>(lbl, b). \<lparr> label = lbl, percentUsed = the (utilization b),
                       resetIn = (case resets_at b of
                                    None \<Rightarrow> None
                                  | Some ts \<Rightarrow> if ts = [] then None
                                               else Some (formatResetTimestamp e ts)) \<rparr>)
       (filter (\<lambda>(lbl, b). utilization b \<noteq> None)
          (case ob of None \<Rightarrow> [] | Some b \<Rightarrow> [(lbl, b)]))"
  by (auto simp: anthropicWindow_def split: option.splits)

lemma anthropicWindows_refines: "anthropicWindows e data = anthropicWindows_spec e data"
  unfolding anthropicWindows_def anthropicWindows_spec_def anthropicWindow_spec1
  by simp

lemma anthropicWindows_example:
  "stamp \<noteq> [] \<Longrightarrow> anthropicWindows e (exAnthropicBody stamp) =
     [\<lparr> label = js ''5h session'', percentUsed = 34,
        resetIn = Some (formatResetTimestamp e stamp) \<rparr>,
      \<lparr> label = js ''Weekly'', percentUsed = 81, resetIn = None \<rparr>]"
  by (simp add: anthropicWindows_def anthropicWindow_def exAnthropicBody_def)

lemma fetchAnthropicUsage_success:
  assumes "jsTruthy (readPiAuth e (js ''anthropic''))"
    and "u = FetchResolved res" "res_ok res" "res_json res = Inr data"
  shows "windows (fetchAnthropicUsage e p u) = anthropicWindows e data
         \<and> error (fetchAnthropicUsage e p u) = None"
  using assms by (simp add: fetchAnthropicUsage_def Let_def)

lemma replaceFirst_no_match:
  "\<not> (\<exists>a b. s = a @ p @ b) \<Longrightarrow> replaceFirst p r s = s"
proof (induction s)
  case Nil
  then show ?case by auto
next
  case (Cons c cs)
  have n: "\<not> startsWith p (c # cs)"
  proof
    assume "startsWith p (c # cs)"
    then have "c # cs = [] @ p @ drop (length p) (c # cs)"
      by (simp add: startsWith_def) (metis append_take_drop_id)
    with Cons.prems show False by blast
  qed
  have "\<not> (\<exists>a b. cs = a @ p @ b)"
  proof
    assume "\<exists>a b. cs = a @ p @ b"
    then obtain a b where "cs = a @ p @ b" by blast
    then have "c # cs = (c # a) @ p @ b" by simp
    with Cons.prems show False by blast
  qed
  with Cons.IH n show ?case by simp
qed

lemma replaceFirst_first_match:
  assumes "p \<noteq> []"
  shows "\<forall>a' b'. a @ p @ b = a' @ p @ b' \<longrightarrow> length a \<le> length a'
         \<Longrightarrow> replaceFirst p r (a @ p @ b) = a @ r @ b"
proof (induction a)
  case Nil
  from assms obtain c cs where p: "p = c # cs" by (cases p) auto
  have "startsWith p (p @ b)" by (simp add: startsWith_def)
  then show ?case using p by simp
next
  case (Cons x a)
  have n: "\<not> startsWith p (x # a @ p @ b)"
  proof
    assume "startsWith p (x # a @ p @ b)"
    then have "(x # a) @ p @ b = [] @ p @ drop (length p) (x # a @ p @ b)"
      by (simp add: startsWith_def) (metis append_take_drop_id)
    with Cons.prems have "length (x # a) \<le> length ([]::ustring)" by blast
    then show False by simp
  qed
  have "\<forall>a' b'. a @ p @ b = a' @ p @ b' \<longrightarrow> length a \<le> length a'"
  proof (intro allI impI)
    fix a' b' assume "a @ p @ b = a' @ p @ b'"
    then have "(x # a) @ p @ b = (x # a') @ p @ b'" by simp
    with Cons.prems have "length (x # a) \<le> length (x # a')" by blast
    then show "length a \<le> length a'" by simp
  qed
  from Cons.IH [OF this] n show ?case by simp
qed

lemma extraWindows_concat: "extraWindows xs = concat (map extraWindow xs)"
  by (induction xs) auto

lemma extraWindow_skipped:
  "\<not> truthy (limit_name x) \<or> extra_rate_limit x = None \<Longrightarrow> extraWindow x = []"
  by (auto simp: extraWindow_def)

lemma extraWindow_zero:
  "extra_rate_limit x = Some rl \<Longrightarrow> usedOrZero (primary_window rl) = 0
   \<Longrightarrow> usedOrZero (secondary_window rl) = 0 \<Longrightarrow> extraWindow x = []"
  by (auto simp: extraWindow_def Let_def)

lemma extraWindow_surfaced:
  "limit_name x = Some n \<Longrightarrow> n \<noteq> [] \<Longrightarrow> extra_rate_limit x = Some rl
   \<Longrightarrow> 0 < usedOrZero (primary_window rl) \<or> 0 < usedOrZero (secondary_window rl)
   \<Longrightarrow> extraWindow x =
        [\<lparr> label = replaceFirst (js ''-Codex-'') (js '' '') (stripPrefix (js ''GPT-'') n),
           percentUsed = max (usedOrZero (primary_window rl)) (usedOrZero (secondary_window rl)),
           resetIn = resetOf (secondary_window rl) \<rparr>]"
  by (auto simp: extraWindow_def Let_def)

lemma label_5_mini:
  "replaceFirst (js ''-Codex-'') (js '' '') (stripPrefix (js ''GPT-'') (js ''GPT-5-Codex-mini''))
   = js ''5 mini''"
  by (simp add: stripPrefix_def startsWith_def js_def)

lemma label_two_infixes:
  "replaceFirst (js ''-Codex-'') (js '' '')
     (stripPrefix (js ''GPT-'') (js ''GPT-5-Codex-a-Codex-b'')) = js ''5 a-Codex-b''"
  by (simp add: stripPrefix_def startsWith_def js_def)

lemma label_spec_two_infixes:
  "extraLabel_spec (js ''GPT-5-Codex-a-Codex-b'') = js ''5 a b''"
  by (simp add: extraLabel_spec_def stripPrefix_def startsWith_def js_def)

lemma js_eq_iff: "js a = js b \<longleftrightarrow> a = b"
  by (simp add: js_def inj_map_eq_map inj_on_def)

lemma exAuth_anthropic: "readPiAuth exEnvAuth (js ''anthropic'') = JObj [(js ''access'', JStr (js ''tok''))]"
  by (simp add: readPiAuth_def exEnvAuth_def exCreds_def js_eq_iff)

lemma exAuth_codex: "readPiAuth exEnvAuth (js ''openai-codex'') = JObj [(js ''access'', JStr (js ''tok''))]"
  by (simp add: readPiAuth_def exEnvAuth_def exCreds_def js_eq_iff)

lemma exAuth_token: "codexAccessToken exEnvAuth = JStr (js ''tok'')"
  by (simp add: codexAccessToken_def exAuth_codex optProp_def Let_def)

lemma exAuth_tok_nonempty: "js ''tok'' \<noteq> []"
  by (simp add: js_def)

lemma anthropic_empty_success:
  "error (fetchAnthropicUsage exEnvAuth exNoProfile exEmptyAnthropic) = None
   \<and> windows (fetchAnthropicUsage exEnvAuth exNoProfile exEmptyAnthropic) = []"
  by (simp add: fetchAnthropicUsage_def exAuth_anthropic exEmptyAnthropic_def Let_def
        anthropicWindows_def anthropicWindow_def)

lemma codex_empty_success:
  "error (fetchCodexUsage exEnvAuth exEmptyCodex) = None
   \<and> windows (fetchCodexUsage exEnvAuth exEmptyCodex) = []"
  by (simp add: fetchCodexUsage_def exAuth_token exAuth_tok_nonempty exEmptyCodex_def Let_def
        codexWindows_def)

lemma formatSeconds_5400: "formatSeconds 5400 = js ''1h 30m''"
  by (simp add: formatSeconds_def intToString_def js_def)

text \<open>
  C1. Every result of \<open>fetchAnthropicUsage\<close> and of \<open>fetchCodexUsage\<close> with an error has no
  windows; and a result without an error may have no windows either (a successful parse
  of a body without any of the fields).
\<close>

theorem error_implies_no_windows:
  "(error (fetchAnthropicUsage e p ua) \<noteq> None \<longrightarrow> windows (fetchAnthropicUsage e p ua) = [])
   \<and> (error (fetchCodexUsage e uc) \<noteq> None \<longrightarrow> windows (fetchCodexUsage e uc) = [])
   \<and> (\<exists>e' p' u'. error (fetchAnthropicUsage e' p' u') = None
          \<and> windows (fetchAnthropicUsage e' p' u') = [])
   \<and> (\<exists>e' u'. error (fetchCodexUsage e' u') = None \<and> windows (fetchCodexUsage e' u') = [])"
  using fetchAnthropicUsage_error_windows [of e p ua] fetchCodexUsage_error_windows [of e uc]
    anthropic_empty_success codex_empty_success
  by blast

theorem error_implies_no_windows_witness:
  "error (fetchAnthropicUsage (exEnv None) exNoProfile exEmptyAnthropic)
     = Some (js ''No OAuth credentials found'')
   \<and> windows (fetchAnthropicUsage (exEnv None) exNoProfile exEmptyAnthropic) = []
   \<and> error (fetchCodexUsage exEnvAuth exAborted) = Some (js ''Cancelled'')
   \<and> windows (fetchCodexUsage exEnvAuth exAborted) = []"
proof -
  have a: "error (fetchAnthropicUsage (exEnv None) exNoProfile exEmptyAnthropic)
             = Some (js ''No OAuth credentials found'')"
    by (simp add: fetchAnthropicUsage_def readPiAuth_def exEnv_def)
  have b: "error (fetchCodexUsage exEnvAuth exAborted) = Some (js ''Cancelled'')"
    by (simp add: fetchCodexUsage_def exAuth_token exAuth_tok_nonempty exAborted_def Let_def)
  from a b
    error_implies_no_windows [of "exEnv None" exNoProfile exEmptyAnthropic exAborted]
    error_implies_no_windows [of exEnvAuth exNoProfile exEmptyAnthropic exAborted]
  show ?thesis by simp
qed

text \<open>
  Once a response that is not OK has arrived, the HTTP error is what is returned: a failure
  of \<open>text()\<close>, of whatever cause, only empties the snippet.
\<close>

lemma http_error_when_body_unreadable:
  assumes "jsTruthy (readPiAuth e (js ''anthropic''))" "\<not> res_ok res" "res_text res = None"
  shows "error (fetchAnthropicUsage e p (FetchResolved res))
           = Some (js ''HTTP '' @ intToString (res_status res) @ js '': '')"
  using assms by (simp add: fetchAnthropicUsage_def Let_def)



text \<open>
  C5. Credential resolution and token decoding give absence instead of raising: a missing
  file, a file that does not parse, and a parsed file without the expected keys give
  \<open>null\<close>; a token with fewer than two dot-separated segments, a token whose middle
  segment does not decode to JSON, and a token that is not a string give \<open>undefined\<close>.
\<close>

theorem credentials_absent_not_raised:
  "(piAuthFile e = None \<longrightarrow> readPiAuth e k = JNull)
   \<and> (\<forall>c. piAuthFile e = Some c \<and> jsonParse e c = None \<longrightarrow> readPiAuth e k = JNull)
   \<and> (\<forall>c kvs. piAuthFile e = Some c \<and> jsonParse e c = Some (JObj kvs) \<and> map_of kvs k = None
        \<longrightarrow> readPiAuth e k = JNull)
   \<and> (\<forall>c v. piAuthFile e = Some c \<and> jsonParse e c = Some v \<and> (\<forall>kvs. v \<noteq> JObj kvs)
        \<longrightarrow> readPiAuth e k = JNull)
   \<and> (codexAuthFile e = None \<longrightarrow> readCodexAuth e = None)
   \<and> (\<forall>c. codexAuthFile e = Some c \<and> jsonParse e c = None \<longrightarrow> readCodexAuth e = None)
   \<and> (\<forall>c kvs. codexAuthFile e = Some c \<and> jsonParse e c = Some (JObj kvs)
          \<and> map_of kvs (js ''tokens'') = None \<longrightarrow> readCodexAuth e = None)
   \<and> (\<forall>c kvs tks. codexAuthFile e = Some c \<and> jsonParse e c = Some (JObj kvs)
          \<and> map_of kvs (js ''tokens'') = Some (JObj tks)
          \<and> map_of tks (js ''access_token'') = None \<longrightarrow> readCodexAuth e = None)
   \<and> (\<forall>c v. codexAuthFile e = Some c \<and> jsonParse e c = Some v \<and> (\<forall>kvs. v \<noteq> JObj kvs)
        \<longrightarrow> readCodexAuth e = None)
   \<and> (\<forall>t. length (splitOn 46 t) < 2 \<longrightarrow> extractEmailFromJwt e (JStr t) = None)
   \<and> (\<forall>t. jsonParse e (jwtPayloadText e (splitOn 46 t ! 1)) = None
        \<longrightarrow> extractEmailFromJwt e (JStr t) = None)
   \<and> (\<forall>v. (\<forall>t. v \<noteq> JStr t) \<longrightarrow> extractEmailFromJwt e v = None)"
  using readPiAuth_absent [of e k] readCodexAuth_absent [of e] extractEmailFromJwt_absent [of e]
  by blast

theorem credentials_absent_not_raised_witness:
  "readPiAuth (exEnv None) (js ''anthropic'') = JNull
   \<and> readPiAuth (exEnv (Some (js ''{oops''))) (js ''anthropic'') = JNull
   \<and> readPiAuth (exEnv (Some (js ''{}''))) (js ''anthropic'') = JNull
   \<and> readCodexAuth (exEnv None) = None
   \<and> readCodexAuth (exEnv (Some (js ''{oops''))) = None
   \<and> readCodexAuth (exEnv (Some (js ''{}''))) = None
   \<and> extractEmailFromJwt (exEnv None) (JStr (js ''abc'')) = None
   \<and> extractEmailFromJwt (exEnv None) (JStr (js ''a.b.c'')) = None
   \<and> extractEmailFromJwt (exEnv None) JUndefined = None"
proof -
  have s1: "length (splitOn 46 (js ''abc'')) < 2"
    by (simp add: js_def)
  have s2: "jsonParse (exEnv None)
              (jwtPayloadText (exEnv None) (splitOn 46 (js ''a.b.c'') ! 1)) = None"
    by (simp add: js_def exEnv_def exParse_def jwtPayloadText_def)
  have p1: "jsonParse (exEnv (Some (js ''{oops''))) (js ''{oops'') = None"
    by (simp add: exEnv_def exParse_def js_eq_iff)
  have p2: "jsonParse (exEnv (Some (js ''{}''))) (js ''{}'') = Some (JObj [])"
    by (simp add: exEnv_def exParse_def)
  have f: "piAuthFile (exEnv x) = x" "codexAuthFile (exEnv x) = x" for x
    by (simp_all add: exEnv_def)
  from s1 s2 p1 p2 f
    credentials_absent_not_raised [of "exEnv None" "js ''anthropic''"]
    credentials_absent_not_raised [of "exEnv (Some (js ''{oops''))" "js ''anthropic''"]
    credentials_absent_not_raised [of "exEnv (Some (js ''{}''))" "js ''anthropic''"]
  show ?thesis by simp
qed

text \<open>
  C6. The Anthropic mapping gives one window for each of \<open>five_hour\<close>, \<open>seven_day\<close>,
  \<open>seven_day_opus\<close>, \<open>seven_day_sonnet\<close> that is present with a utilization, under the
  labels "5h session", "Weekly", "Weekly (Opus)", "Weekly (Sonnet)", in that order; a
  successful call returns exactly these windows. The response with \<open>five_hour\<close> at 34 and
  a reset timestamp and \<open>seven_day\<close> at 81 gives "5h session" at 34 with a non-empty
  \<open>resetIn\<close>, then "Weekly" at 81 without one.
\<close>

theorem anthropic_mapping:
  "anthropicWindows e data = anthropicWindows_spec e data
   \<and> (\<forall>res. jsTruthy (readPiAuth e (js ''anthropic'')) \<and> res_ok res \<and> res_json res = Inr data
        \<longrightarrow> windows (fetchAnthropicUsage e p (FetchResolved res)) = anthropicWindows e data
            \<and> error (fetchAnthropicUsage e p (FetchResolved res)) = None)
   \<and> (stamp \<noteq> [] \<longrightarrow>
        anthropicWindows e (exAnthropicBody stamp) =
          [\<lparr> label = js ''5h session'', percentUsed = 34,
             resetIn = Some (formatResetTimestamp e stamp) \<rparr>,
           \<lparr> label = js ''Weekly'', percentUsed = 81, resetIn = None \<rparr>]
        \<and> formatResetTimestamp e stamp \<noteq> [])"
  using anthropicWindows_refines [of e data] anthropicWindows_example [of stamp e]
    formatResetTimestamp_nonempty [of e stamp] fetchAnthropicUsage_success [of e _ _ data p]
  by blast

theorem anthropic_mapping_witness:
  "windows (fetchAnthropicUsage exEnvAuth exNoProfile
      (FetchResolved \<lparr> res_ok = True, res_status = 200, res_text = None,
                        res_json = Inr (exAnthropicBody (js ''2030-01-01T00:00:00Z'')) \<rparr>))
     = [\<lparr> label = js ''5h session'', percentUsed = 34,
          resetIn = Some (formatResetTimestamp exEnvAuth (js ''2030-01-01T00:00:00Z'')) \<rparr>,
        \<lparr> label = js ''Weekly'', percentUsed = 81, resetIn = None \<rparr>]
   \<and> formatResetTimestamp exEnvAuth (js ''2030-01-01T00:00:00Z'') \<noteq> []"
proof -
  let ?stamp = "js ''2030-01-01T00:00:00Z''"
  let ?res = "\<lparr> res_ok = True, res_status = 200, res_text = None,
                res_json = Inr (exAnthropicBody ?stamp) \<rparr>"
  have a: "jsTruthy (readPiAuth exEnvAuth (js ''anthropic''))"
    by (simp add: exAuth_anthropic)
  have n: "?stamp \<noteq> []"
    by (rule js_nonempty)
  have r: "res_ok ?res" "res_json ?res = Inr (exAnthropicBody ?stamp)"
    by simp_all
  note m = anthropic_mapping [of exEnvAuth "exAnthropicBody ?stamp" exNoProfile ?stamp]
  from m a r have 1: "windows (fetchAnthropicUsage exEnvAuth exNoProfile (FetchResolved ?res))
                       = anthropicWindows exEnvAuth (exAnthropicBody ?stamp)"
    by blast
  from m n have 2: "anthropicWindows exEnvAuth (exAnthropicBody ?stamp) =
          [\<lparr> label = js ''5h session'', percentUsed = 34,
             resetIn = Some (formatResetTimestamp exEnvAuth ?stamp) \<rparr>,
           \<lparr> label = js ''Weekly'', percentUsed = 81, resetIn = None \<rparr>]"
    and 3: "formatResetTimestamp exEnvAuth ?stamp \<noteq> []"
    by blast+
  from 1 2 3 show ?thesis by (simp only: simp_thms)
qed

text \<open>
  C7 (as stated). Not any "-Codex-" infix is replaced: of two, the second stays.
\<close>

theorem extraWindow_label_counterexample:
  "map label (extraWindow (exExtra (js ''GPT-5-Codex-a-Codex-b'') 0 12))
     = [js ''5 a-Codex-b'']
   \<and> extraLabel_spec (js ''GPT-5-Codex-a-Codex-b'') = js ''5 a b''"
  by (simp add: extraWindow_def exExtra_def usedOrZero_def Let_def js_nonempty
        label_two_infixes label_spec_two_infixes)

text \<open>
  C7 (amended). An entry of \<open>additional_rate_limits\<close> without a name or without a
  rate-limit payload is skipped; an entry whose primary and secondary windows both report
  zero usage is skipped; a surfaced entry has the raw limit name with a leading "GPT-"
  stripped and the first "-Codex-" infix replaced by a single space as its label, the
  maximum of the two percentages as \<open>percentUsed\<close>, and the secondary window's relative
  seconds, if present, as \<open>resetIn\<close>. "GPT-5-Codex-mini" with secondary usage 12 gives the
  window "5 mini" at 12; with both windows at zero it gives none.
\<close>

theorem extraWindow_amended:
  "(\<not> truthy (limit_name x) \<or> extra_rate_limit x = None \<longrightarrow> extraWindow x = [])
   \<and> (\<forall>rl. extra_rate_limit x = Some rl \<and> usedOrZero (primary_window rl) = 0
          \<and> usedOrZero (secondary_window rl) = 0 \<longrightarrow> extraWindow x = [])
   \<and> (\<forall>n rl. limit_name x = Some n \<and> n \<noteq> [] \<and> extra_rate_limit x = Some rl
          \<and> (0 < usedOrZero (primary_window rl) \<or> 0 < usedOrZero (secondary_window rl))
        \<longrightarrow> extraWindow x =
             [\<lparr> label = replaceFirst (js ''-Codex-'') (js '' '') (stripPrefix (js ''GPT-'') n),
                percentUsed = max (usedOrZero (primary_window rl))
                                  (usedOrZero (secondary_window rl)),
                resetIn = resetOf (secondary_window rl) \<rparr>])
   \<and> (\<forall>a b. (\<forall>a' b'. a @ js ''-Codex-'' @ b = a' @ js ''-Codex-'' @ b'
                  \<longrightarrow> length a \<le> length a')
        \<longrightarrow> replaceFirst (js ''-Codex-'') (js '' '') (a @ js ''-Codex-'' @ b) = a @ js '' '' @ b)
   \<and> (\<forall>s. \<not> (\<exists>a b. s = a @ js ''-Codex-'' @ b)
        \<longrightarrow> replaceFirst (js ''-Codex-'') (js '' '') s = s)
   \<and> extraWindows xs = concat (map extraWindow xs)
   \<and> extraWindow (exExtra (js ''GPT-5-Codex-mini'') 0 12)
        = [\<lparr> label = js ''5 mini'', percentUsed = 12, resetIn = Some (js ''1h 30m'') \<rparr>]
   \<and> extraWindow (exExtra (js ''GPT-5-Codex-mini'') 0 0) = []"
proof -
  have 1: "\<not> truthy (limit_name x) \<or> extra_rate_limit x = None \<longrightarrow> extraWindow x = []"
    using extraWindow_skipped [of x] by blast
  have 2: "\<forall>rl. extra_rate_limit x = Some rl \<and> usedOrZero (primary_window rl) = 0
          \<and> usedOrZero (secondary_window rl) = 0 \<longrightarrow> extraWindow x = []"
    using extraWindow_zero [of x] by blast
  have 3: "\<forall>n rl. limit_name x = Some n \<and> n \<noteq> [] \<and> extra_rate_limit x = Some rl
          \<and> (0 < usedOrZero (primary_window rl) \<or> 0 < usedOrZero (secondary_window rl))
        \<longrightarrow> extraWindow x =
             [\<lparr> label = replaceFirst (js ''-Codex-'') (js '' '') (stripPrefix (js ''GPT-'') n),
                percentUsed = max (usedOrZero (primary_window rl))
                                  (usedOrZero (secondary_window rl)),
                resetIn = resetOf (secondary_window rl) \<rparr>]"
    using extraWindow_surfaced [of x] by blast
  have ne: "js ''-Codex-'' \<noteq> []"
    by (rule js_nonempty)
  have 4: "\<forall>a b. (\<forall>a' b'. a @ js ''-Codex-'' @ b = a' @ js ''-Codex-'' @ b'
                  \<longrightarrow> length a \<le> length a')
        \<longrightarrow> replaceFirst (js ''-Codex-'') (js '' '') (a @ js ''-Codex-'' @ b) = a @ js '' '' @ b"
    using replaceFirst_first_match [OF ne] by blast
  have 5: "\<forall>s. \<not> (\<exists>a b. s = a @ js ''-Codex-'' @ b)
        \<longrightarrow> replaceFirst (js ''-Codex-'') (js '' '') s = s"
    using replaceFirst_no_match by blast
  have 6: "extraWindows xs = concat (map extraWindow xs)"
    by (rule extraWindows_concat)
  have 7: "extraWindow (exExtra (js ''GPT-5-Codex-mini'') 0 12)
        = [\<lparr> label = js ''5 mini'', percentUsed = 12, resetIn = Some (js ''1h 30m'') \<rparr>]"
    by (simp add: extraWindow_def exExtra_def usedOrZero_def resetOf_def Let_def js_nonempty
          label_5_mini formatSeconds_5400)
  have 8: "extraWindow (exExtra (js ''GPT-5-Codex-mini'') 0 0) = []"
    by (simp add: extraWindow_def exExtra_def usedOrZero_def Let_def)
  from 1 2 3 4 5 6 7 8 show ?thesis by blast
qed

theorem extraWindow_amended_witness:
  "extraWindow \<lparr> limit_name = None, extra_rate_limit = None \<rparr> = []
   \<and> extraWindow (exExtra (js ''GPT-5-Codex-mini'') 0 0) = []
   \<and> map label (extraWindow (exExtra (js ''GPT-5-Codex-mini'') 3 12)) = [js ''5 mini'']
   \<and> map percentUsed (extraWindow (exExtra (js ''GPT-5-Codex-mini'') 3 12)) = [12]"
proof -
  have n: "js ''GPT-5-Codex-mini'' \<noteq> []"
    by (rule js_nonempty)
  from n label_5_mini
    extraWindow_amended [of "\<lparr> limit_name = None, extra_rate_limit = None \<rparr>"]
    extraWindow_amended [of "exExtra (js ''GPT-5-Codex-mini'') 0 0"]
    extraWindow_amended [of "exExtra (js ''GPT-5-Codex-mini'') 3 12"]
  show ?thesis by (simp add: exExtra_def usedOrZero_def)
qed

end
